theory Spec2Isabelle
  imports Complex_Main
begin

section \<open>Values shared by the front-end modules\<close>

text \<open>
  The front end talks to the Rust backend through \<^verbatim>\<open>tauriInvoke\<close>
  (\<^verbatim>\<open>src/api/tauri-client.ts\<close>), which either resolves with a value or throws
  \<^verbatim>\<open>new Error(message)\<close>. An awaited backend call is therefore a value of
  \<open>string + 'a\<close>: \<open>Inl message\<close> is the thrown error, \<open>Inr v\<close> the resolved value.
  The outcome of every awaited call is an explicit argument of the modelled function.

  A TypeScript \<^verbatim>\<open>number\<close> that arrives in an IPC payload is a finite number (JSON carries
  neither NaN nor an infinity); it is compared and negated exactly, so it is a \<open>real\<close>.
  An optional field \<^verbatim>\<open>f?: T\<close> and a nullable field \<^verbatim>\<open>T | null\<close> are \<open>T option\<close>.
  Field names that several interfaces share carry a short prefix of their interface,
  since record fields are constants of the theory.
\<close>

type_synonym 'a result = "string + 'a"

type_synonym number = real

text \<open>JavaScript truthiness of the values the code tests with \<^verbatim>\<open>||\<close>, \<^verbatim>\<open>!\<close> and \<^verbatim>\<open>if\<close>:
  \<^verbatim>\<open>undefined\<close>, \<^verbatim>\<open>null\<close>, \<^verbatim>\<open>false\<close>, \<^verbatim>\<open>''\<close> and \<^verbatim>\<open>0\<close> are falsy.\<close>

definition truthy_bool :: "bool option \<Rightarrow> bool" where
  "truthy_bool b = (case b of None \<Rightarrow> False | Some v \<Rightarrow> v)"

definition truthy_string :: "string option \<Rightarrow> bool" where
  "truthy_string s = (case s of None \<Rightarrow> False | Some v \<Rightarrow> v \<noteq> [])"

text \<open>\<^verbatim>\<open>x || null\<close> on an optional string.\<close>

definition or_null :: "string option \<Rightarrow> string option" where
  "or_null s = (if truthy_string s then s else None)"

text \<open>\<^verbatim>\<open>x || dflt\<close> on an optional string and on an optional number.\<close>

definition or_string :: "string option \<Rightarrow> string \<Rightarrow> string" where
  "or_string s dflt = (case s of None \<Rightarrow> dflt | Some v \<Rightarrow> if v \<noteq> [] then v else dflt)"

definition or_number :: "number option \<Rightarrow> number \<Rightarrow> number" where
  "or_number n dflt = (case n of None \<Rightarrow> dflt | Some v \<Rightarrow> if v \<noteq> 0 then v else dflt)"

text \<open>\<^verbatim>\<open>String.prototype.toUpperCase\<close> on the letters a to z. Every other byte is left as
  it is; no character outside a to z has B, U or Y as its upper case, so the comparison
  with \<^verbatim>\<open>'BUY'\<close> below reads the same. For an action with a cased letter outside
  a to z the text of the toast differs from the one the code shows; nothing below depends
  on that text.\<close>

definition toUpperCase_char :: "char \<Rightarrow> char" where
  "toUpperCase_char c =
     (let n = (of_char c :: nat) in if 97 \<le> n \<and> n \<le> 122 then char_of (n - 32) else c)"

definition toUpperCase :: "string \<Rightarrow> string" where
  "toUpperCase s = map toUpperCase_char s"

section \<open>The auth store (\<^verbatim>\<open>src/stores/authStore.ts\<close>)\<close>

record User =
  username :: string
  broker :: "string option"
  brokerId :: "string option"
  isLoggedIn :: bool
  loginTime :: "string option"

record AuthStore =
  user :: "User option"
  apiKey :: "string option"
  isAuthenticated :: bool
  brokerConnected :: bool
  isLoading :: bool
  error :: "string option"

text \<open>The store as \<^verbatim>\<open>create\<close> builds it.\<close>

definition initialStore :: AuthStore where
  "initialStore =
     \<lparr>user = None, apiKey = None, isAuthenticated = False, brokerConnected = False,
      isLoading = False, error = None\<rparr>"

text \<open>The session types of \<^verbatim>\<open>src/api/tauri-client.ts\<close> and of the auth API.\<close>

record UserInfo =
  ui_user_id :: number
  ui_username :: string
  ui_authenticated_at :: string

record BrokerStatus =
  bs_connected :: bool
  bs_broker_id :: "string option"
  bs_user_id :: "string option"
  bs_authenticated_at :: "string option"

record SessionInfo =
  authenticated :: bool
  si_user :: "UserInfo option"
  si_broker :: "BrokerStatus option"

record LoginResponse =
  lr_success :: bool
  lr_user_id :: number
  lr_username :: string

record BrokerLoginResponse =
  blr_success :: bool
  blr_broker_id :: string
  blr_user_id :: string
  blr_user_name :: "string option"

text \<open>\<^verbatim>\<open>setUser\<close> and \<^verbatim>\<open>setApiKey\<close>.\<close>

definition setUser :: "User \<Rightarrow> AuthStore \<Rightarrow> AuthStore" where
  "setUser u s =
     s\<lparr>user := Some u, isAuthenticated := isLoggedIn u,
       brokerConnected := truthy_string (broker u)\<rparr>"

definition setApiKey :: "string option \<Rightarrow> AuthStore \<Rightarrow> AuthStore" where
  "setApiKey k s = s\<lparr>apiKey := k\<rparr>"

text \<open>\<^verbatim>\<open>login\<close>: the second argument is the outcome of \<^verbatim>\<open>authApi.login\<close>, the third
  the value of \<^verbatim>\<open>new Date().toISOString()\<close>. The result is the returned boolean and the
  store after the last \<^verbatim>\<open>set\<close>.\<close>

definition login :: "LoginResponse result \<Rightarrow> string \<Rightarrow> AuthStore \<Rightarrow> bool \<times> AuthStore" where
  "login backend now s =
     (let s1 = s\<lparr>isLoading := True, error := None\<rparr> in
      case backend of
        Inr response \<Rightarrow>
          if lr_success response then
            (True,
             s1\<lparr>user := Some \<lparr>username = lr_username response, broker = None, brokerId = None,
                               isLoggedIn = True, loginTime = Some now\<rparr>,
                isAuthenticated := True, isLoading := False\<rparr>)
          else (False, s1\<lparr>isLoading := False, error := Some ''Login failed''\<rparr>)
      | Inl msg \<Rightarrow> (False, s1\<lparr>isLoading := False, error := Some msg\<rparr>))"

text \<open>\<^verbatim>\<open>logout\<close>: the backend call sits in a \<^verbatim>\<open>try\<close> whose \<^verbatim>\<open>catch\<close> only logs, and
  the \<^verbatim>\<open>finally\<close> block resets the store on both paths.\<close>

definition logout :: "unit result \<Rightarrow> AuthStore \<Rightarrow> AuthStore" where
  "logout backend s =
     (let s1 = s\<lparr>isLoading := True\<rparr>;
          s2 = (case backend of Inr _ \<Rightarrow> s1 | Inl msg \<Rightarrow> s1)
      in s2\<lparr>user := None, apiKey := None, isAuthenticated := False,
            brokerConnected := False, isLoading := False, error := None\<rparr>)"

text \<open>\<^verbatim>\<open>brokerLogin\<close>: \<^verbatim>\<open>response.user_name || response.user_id\<close> is the broker label.\<close>

definition brokerLogin :: "BrokerLoginResponse result \<Rightarrow> AuthStore \<Rightarrow> bool \<times> AuthStore" where
  "brokerLogin backend s =
     (let s1 = s\<lparr>isLoading := True, error := None\<rparr> in
      case backend of
        Inr response \<Rightarrow>
          if blr_success response then
            (case user s1 of
               Some currentUser \<Rightarrow>
                 (True,
                  s1\<lparr>user := Some (currentUser
                         \<lparr>broker := Some (or_string (blr_user_name response) (blr_user_id response)),
                          brokerId := Some (blr_broker_id response)\<rparr>),
                     brokerConnected := True, isLoading := False\<rparr>)
             | None \<Rightarrow> (True, s1))
          else (False, s1\<lparr>isLoading := False, error := Some ''Broker login failed''\<rparr>)
      | Inl msg \<Rightarrow> (False, s1\<lparr>isLoading := False, error := Some msg\<rparr>))"

text \<open>\<^verbatim>\<open>brokerLogout\<close>: on success the user's broker fields are cleared, if there is a
  user; on a thrown error only \<^verbatim>\<open>isLoading\<close> is reset.\<close>

definition brokerLogout :: "unit result \<Rightarrow> AuthStore \<Rightarrow> AuthStore" where
  "brokerLogout backend s =
     (let s1 = s\<lparr>isLoading := True\<rparr> in
      case backend of
        Inr _ \<Rightarrow>
          (case user s1 of
             Some currentUser \<Rightarrow>
               s1\<lparr>user := Some (currentUser\<lparr>broker := None, brokerId := None\<rparr>),
                  brokerConnected := False, isLoading := False\<rparr>
           | None \<Rightarrow> s1)
      | Inl msg \<Rightarrow> s1\<lparr>isLoading := False\<rparr>)"

text \<open>\<^verbatim>\<open>checkSession\<close>: the first argument is the outcome of \<^verbatim>\<open>authApi.getSession()\<close>.
  \<^verbatim>\<open>session.broker?.f\<close> is \<^verbatim>\<open>undefined\<close> when the broker status is missing.\<close>

definition broker_field :: "(BrokerStatus \<Rightarrow> 'a option) \<Rightarrow> SessionInfo \<Rightarrow> 'a option" where
  "broker_field f session = (case si_broker session of None \<Rightarrow> None | Some b \<Rightarrow> f b)"

definition checkSession :: "SessionInfo result \<Rightarrow> AuthStore \<Rightarrow> bool \<times> AuthStore" where
  "checkSession backend s =
     (case backend of
        Inr session \<Rightarrow>
          (case (authenticated session, si_user session) of
             (True, Some u) \<Rightarrow>
               (True,
                s\<lparr>user := Some \<lparr>username = ui_username u,
                                 broker = or_null (broker_field bs_user_id session),
                                 brokerId = or_null (broker_field bs_broker_id session),
                                 isLoggedIn = True,
                                 loginTime = Some (ui_authenticated_at u)\<rparr>,
                  isAuthenticated := True,
                  brokerConnected :=
                    truthy_bool (broker_field (\<lambda>b. Some (bs_connected b)) session)\<rparr>)
           | _ \<Rightarrow>
               (False, s\<lparr>user := None, isAuthenticated := False, brokerConnected := False\<rparr>))
      | Inl msg \<Rightarrow> (False, s))"

text \<open>\<^verbatim>\<open>refreshSession\<close> runs \<^verbatim>\<open>checkSession\<close> and clears the session when it is false.\<close>

definition refreshSession :: "SessionInfo result \<Rightarrow> AuthStore \<Rightarrow> AuthStore" where
  "refreshSession backend s =
     (case checkSession backend s of
        (isValid, s1) \<Rightarrow>
          if \<not> isValid then s1\<lparr>user := None, isAuthenticated := False, brokerConnected := False\<rparr>
          else s1)"

definition clearError :: "AuthStore \<Rightarrow> AuthStore" where
  "clearError s = s\<lparr>error := None\<rparr>"

text \<open>The stores the actions can produce from the initial one, whatever the backend answers.\<close>

inductive reachable :: "AuthStore \<Rightarrow> bool" where
  reachable_initial: "reachable initialStore"
| reachable_setUser: "reachable s \<Longrightarrow> reachable (setUser u s)"
| reachable_setApiKey: "reachable s \<Longrightarrow> reachable (setApiKey k s)"
| reachable_login: "reachable s \<Longrightarrow> reachable (snd (login response now s))"
| reachable_logout: "reachable s \<Longrightarrow> reachable (logout outcome s)"
| reachable_brokerLogin: "reachable s \<Longrightarrow> reachable (snd (brokerLogin bresponse s))"
| reachable_brokerLogout: "reachable s \<Longrightarrow> reachable (brokerLogout outcome s)"
| reachable_checkSession: "reachable s \<Longrightarrow> reachable (snd (checkSession session s))"
| reachable_refreshSession: "reachable s \<Longrightarrow> reachable (refreshSession session s)"
| reachable_clearError: "reachable s \<Longrightarrow> reachable (clearError s)"

section \<open>Effects of the event listeners\<close>

text \<open>What a listener does besides updating the store: the \<^verbatim>\<open>sonner\<close> toasts, the router
  navigation and the call of \<^verbatim>\<open>audio.play()\<close>, in the order the code performs them.\<close>

datatype toast_kind = Success | Error | Warning | Info

record ToastOptions =
  duration :: nat
  toast_id :: string

record NavigateOptions =
  replace :: bool
  state_reason :: string

datatype effect =
    Toast toast_kind string "ToastOptions option"
  | Navigate string NavigateOptions
  | PlayAudio

fun is_toast :: "effect \<Rightarrow> bool" where
  "is_toast (Toast k m opts) = True"
| "is_toast (Navigate path opts) = False"
| "is_toast PlayAudio = False"

section \<open>The auto-logout hook (\<^verbatim>\<open>useAutoLogout\<close> in \<^verbatim>\<open>src/hooks/useSocket.ts\<close>)\<close>

record AutoLogoutWarningPayload =
  minutes_remaining :: number
  alw_message :: string

record AutoLogoutPayload =
  reason :: string
  al_timestamp :: string

definition getToastType :: "number \<Rightarrow> toast_kind" where
  "getToastType minutes =
     (if minutes \<le> 1 then Error else if minutes \<le> 5 then Warning else Info)"

text \<open>The listener of \<^verbatim>\<open>auto_logout_warning\<close>.\<close>

definition auto_logout_warning_listener :: "AutoLogoutWarningPayload \<Rightarrow> effect list" where
  "auto_logout_warning_listener payload =
     (let toastType = getToastType (minutes_remaining payload);
          toastOptions = \<lparr>duration = 10000, toast_id = ''auto-logout-warning''\<rparr>
      in if toastType = Error then [Toast Error (alw_message payload) (Some toastOptions)]
         else if toastType = Warning then [Toast Warning (alw_message payload) (Some toastOptions)]
         else [Toast Info (alw_message payload) (Some toastOptions)])"

text \<open>The listener of \<^verbatim>\<open>auto_logout\<close>: the final toast, the awaited \<^verbatim>\<open>logout\<close> of the
  store (its own \<^verbatim>\<open>try\<close> only logs), then the navigation. The store of the result is the
  store at the moment \<^verbatim>\<open>navigate\<close> is called.\<close>

definition auto_logout_listener ::
  "AutoLogoutPayload \<Rightarrow> unit result \<Rightarrow> AuthStore \<Rightarrow> AuthStore \<times> effect list" where
  "auto_logout_listener payload backend s =
     (let shown = [Toast Info (reason payload)
                     (Some \<lparr>duration = 5000, toast_id = ''auto-logout-executed''\<rparr>)];
          s1 = logout backend s
      in (s1, shown @ [Navigate ''/login'' \<lparr>replace = True, state_reason = ''auto_logout''\<rparr>]))"

datatype auto_logout_event =
    AutoLogoutWarning AutoLogoutWarningPayload
  | AutoLogout AutoLogoutPayload

text \<open>The hook registers both listeners in an effect that returns at once when
  \<^verbatim>\<open>!enabled || !isAuthenticated\<close>; an event emitted then reaches no listener.\<close>

definition useAutoLogout ::
  "bool \<Rightarrow> auto_logout_event \<Rightarrow> unit result \<Rightarrow> AuthStore \<Rightarrow> AuthStore \<times> effect list" where
  "useAutoLogout enabled ev backend s =
     (if \<not> enabled \<or> \<not> isAuthenticated s then (s, [])
      else case ev of
             AutoLogoutWarning payload \<Rightarrow> (s, auto_logout_warning_listener payload)
           | AutoLogout payload \<Rightarrow> auto_logout_listener payload backend s)"

section \<open>The socket hook (\<^verbatim>\<open>useSocket\<close> in \<^verbatim>\<open>src/hooks/useSocket.ts\<close>)\<close>

record OrderEventData =
  oe_symbol :: string
  oe_action :: string
  oe_orderid :: string
  batch_order :: "bool option"
  is_last_order :: "bool option"

text \<open>The three refs of the hook: whether \<^verbatim>\<open>audioRef.current\<close> holds an audio element,
  \<^verbatim>\<open>lastAudioTimeRef.current\<close> (milliseconds, as \<^verbatim>\<open>Date.now()\<close> counts them) and
  \<^verbatim>\<open>audioEnabledRef.current\<close>.\<close>

record SocketRefs =
  audioRef :: bool
  lastAudioTime :: int
  audioEnabled :: bool

definition initialRefs :: SocketRefs where
  "initialRefs = \<lparr>audioRef = False, lastAudioTime = 0, audioEnabled = False\<rparr>"

definition AUDIO_THROTTLE_MS :: int where
  "AUDIO_THROTTLE_MS = 1000"

text \<open>\<^verbatim>\<open>playAlertSound\<close>: \<open>now\<close> is the value of \<^verbatim>\<open>Date.now()\<close>, \<open>played\<close> says whether
  the promise of \<^verbatim>\<open>play()\<close> resolves.\<close>

definition playAlertSound :: "int \<Rightarrow> bool \<Rightarrow> SocketRefs \<Rightarrow> SocketRefs \<times> effect list" where
  "playAlertSound now played refs =
     (let timeSinceLastAttempt = now - lastAudioTime refs in
      if timeSinceLastAttempt < AUDIO_THROTTLE_MS \<and> lastAudioTime refs \<noteq> 0 then (refs, [])
      else
        let refs1 = refs\<lparr>lastAudioTime := now\<rparr> in
        if audioRef refs1
        then ((if played then refs1\<lparr>audioEnabled := True\<rparr> else refs1), [PlayAudio])
        else (refs1, []))"

definition shouldPlayAudio :: "OrderEventData \<Rightarrow> bool" where
  "shouldPlayAudio d = (\<not> truthy_bool (batch_order d) \<or> truthy_bool (is_last_order d))"

definition order_message :: "OrderEventData \<Rightarrow> string" where
  "order_message d =
     toUpperCase (oe_action d) @ '' Order Placed for Symbol: '' @ oe_symbol d @
     '', Order ID: '' @ oe_orderid d"

text \<open>The listener of \<^verbatim>\<open>order_event\<close>.\<close>

definition order_event_listener ::
  "int \<Rightarrow> bool \<Rightarrow> OrderEventData \<Rightarrow> SocketRefs \<Rightarrow> SocketRefs \<times> effect list" where
  "order_event_listener now played d refs =
     (case (if shouldPlayAudio d then playAlertSound now played refs else (refs, [])) of
        (refs1, sound) \<Rightarrow>
          (refs1,
           sound @
           [if toUpperCase (oe_action d) = ''BUY'' then Toast Success (order_message d) None
            else Toast Error (order_message d) None]))"

text \<open>A run of the listener over the events it receives, each with the clock reading and the
  outcome of \<^verbatim>\<open>play()\<close> at its arrival; every effect is stamped with the clock reading.\<close>

fun order_events ::
  "(int \<times> bool \<times> OrderEventData) list \<Rightarrow> SocketRefs \<Rightarrow> (int \<times> effect) list" where
  "order_events [] refs = []"
| "order_events ((now, played, d) # evs) refs =
     (case order_event_listener now played d refs of
        (refs1, es) \<Rightarrow> map (Pair now) es @ order_events evs refs1)"

text \<open>The effect of the hook returns at once when \<^verbatim>\<open>!isAuthenticated\<close>; otherwise it
  creates the audio element and then registers the listener.\<close>

definition useSocket ::
  "bool \<Rightarrow> (int \<times> bool \<times> OrderEventData) list \<Rightarrow> SocketRefs \<Rightarrow> (int \<times> effect) list" where
  "useSocket isAuth evs refs =
     (if \<not> isAuth then [] else order_events evs (refs\<lparr>audioRef := True\<rparr>))"

definition play_times :: "(int \<times> effect) list \<Rightarrow> int list" where
  "play_times tr = map fst (filter (\<lambda>e. snd e = PlayAudio) tr)"

definition toasts :: "(int \<times> effect) list \<Rightarrow> effect list" where
  "toasts tr = filter is_toast (map snd tr)"

section \<open>The trading and strategy APIs (\<^verbatim>\<open>src/api/chartink.ts\<close>, \<^verbatim>\<open>src/api/strategy.ts\<close>)\<close>

text \<open>Of \<^verbatim>\<open>Position\<close> and \<^verbatim>\<open>Order\<close> the records keep the fields the two functions read
  (and the \<^verbatim>\<open>order_status\<close> field beside \<^verbatim>\<open>status\<close>).\<close>

record Position =
  p_symbol :: string
  p_exchange :: string
  p_product :: string
  p_quantity :: number

record ClosePositionRequest =
  cp_symbol :: string
  cp_exchange :: string
  cp_product :: string
  cp_quantity :: number
  cp_position_type :: string

record ClosePositionResponse =
  cpr_success :: bool
  cpr_order_id :: "string option"
  cpr_message :: string

record Order =
  order_id :: string
  status :: string
  order_status :: string

record OrderResponse =
  or_success :: bool
  or_order_id :: string
  or_message :: "string option"

record Strategy =
  st_id :: number
  st_name :: string
  st_webhook_id :: string

text \<open>The argument of \<^verbatim>\<open>strategyApi.createStrategy\<close> and the request it builds.\<close>

record CreateStrategyData =
  d_name :: string
  d_platform :: "string option"
  d_strategy_type :: "string option"
  d_trading_mode :: "string option"
  d_start_time :: "string option"
  d_end_time :: "string option"
  d_squareoff_time :: "string option"
  d_webhook_id :: "string option"
  d_exchange :: "string option"
  d_symbol :: "string option"
  d_product :: "string option"
  d_quantity :: "number option"
  d_enabled :: "bool option"

record CreateStrategyRequest =
  r_name :: string
  r_webhook_id :: string
  r_exchange :: string
  r_symbol :: string
  r_product :: string
  r_quantity :: number
  r_enabled :: bool
  r_platform :: "string option"
  r_strategy_type :: "string option"
  r_trading_mode :: "string option"
  r_start_time :: "string option"
  r_end_time :: "string option"
  r_squareoff_time :: "string option"

text \<open>The IPC commands a function issues, in the order it issues them.\<close>

datatype command =
    GetPositions
  | ClosePosition ClosePositionRequest
  | GetOrderBook
  | CancelOrder string
  | CreateStrategy CreateStrategyRequest

fun is_close :: "command \<Rightarrow> bool" where
  "is_close (ClosePosition request) = True"
| "is_close c = False"

fun is_cancel :: "command \<Rightarrow> bool" where
  "is_cancel (CancelOrder orderid) = True"
| "is_cancel c = False"

text \<open>\<^verbatim>\<open>ApiResponse<T>\<close> and the two shapes the functions return.\<close>

record 'a ApiResponse =
  api_status :: string
  api_data :: "'a option"
  api_message :: "string option"

definition api_success :: "'a option \<Rightarrow> 'a ApiResponse" where
  "api_success v = \<lparr>api_status = ''success'', api_data = v, api_message = None\<rparr>"

definition api_error :: "string \<Rightarrow> 'a ApiResponse" where
  "api_error msg = \<lparr>api_status = ''error'', api_data = None, api_message = Some msg\<rparr>"

text \<open>\<^verbatim>\<open>tradingApi.closePosition\<close>: \<open>fetched\<close> is the outcome of \<^verbatim>\<open>getPositions\<close>,
  \<open>close_result\<close> the outcome of the \<^verbatim>\<open>close_position\<close> command when it is issued.\<close>

definition closePosition ::
  "Position list result \<Rightarrow> ClosePositionResponse result \<Rightarrow> string \<Rightarrow> string \<Rightarrow> string \<Rightarrow>
   unit ApiResponse \<times> command list" where
  "closePosition fetched close_result symbol exchange product =
     (case fetched of
        Inl msg \<Rightarrow> (api_error msg, [GetPositions])
      | Inr positions \<Rightarrow>
          (case find (\<lambda>p. p_symbol p = symbol \<and> p_exchange p = exchange \<and> p_product p = product)
                  positions of
             None \<Rightarrow> (api_error ''Position not found or already closed'', [GetPositions])
           | Some position \<Rightarrow>
               if p_quantity position = 0
               then (api_error ''Position not found or already closed'', [GetPositions])
               else
                 let request =
                       \<lparr>cp_symbol = symbol, cp_exchange = exchange, cp_product = product,
                        cp_quantity = \<bar>p_quantity position\<bar>,
                        cp_position_type =
                          (if p_quantity position > 0 then ''long'' else ''short'')\<rparr>
                 in (case close_result of
                       Inl msg \<Rightarrow> (api_error msg, [GetPositions, ClosePosition request])
                     | Inr response \<Rightarrow>
                         (api_success None, [GetPositions, ClosePosition request]))))"

text \<open>\<^verbatim>\<open>tradingApi.cancelAllOrders\<close>: \<open>fetched\<close> is the outcome of \<^verbatim>\<open>getOrderBook\<close>,
  \<open>cancel\<close> the outcome of \<^verbatim>\<open>cancelOrder\<close> for each order id. \<^verbatim>\<open>map\<close> issues every
  cancel request before \<^verbatim>\<open>Promise.all\<close> is awaited; when several reject, the message is
  that of the rejection settled first, taken here in the order of the requests.\<close>

definition is_pending :: "Order \<Rightarrow> bool" where
  "is_pending ord =
     (status ord = ''pending'' \<or> status ord = ''open'' \<or> status ord = ''trigger_pending'')"

fun first_rejection :: "'a result list \<Rightarrow> string option" where
  "first_rejection [] = None"
| "first_rejection (Inl msg # rs) = Some msg"
| "first_rejection (Inr v # rs) = first_rejection rs"

definition cancelAllOrders ::
  "Order list result \<Rightarrow> (string \<Rightarrow> OrderResponse result) \<Rightarrow> unit ApiResponse \<times> command list" where
  "cancelAllOrders fetched cancel =
     (case fetched of
        Inl msg \<Rightarrow> (api_error msg, [GetOrderBook])
      | Inr orders \<Rightarrow>
          let pendingOrders = filter is_pending orders;
              issued = map (\<lambda>ord. CancelOrder (order_id ord)) pendingOrders
          in (case first_rejection (map (\<lambda>ord. cancel (order_id ord)) pendingOrders) of
                Some msg \<Rightarrow> (api_error msg, GetOrderBook # issued)
              | None \<Rightarrow> (api_success None, GetOrderBook # issued)))"

text \<open>\<^verbatim>\<open>strategyApi.createStrategy\<close>: \<open>randomUUID\<close> is the value \<^verbatim>\<open>crypto.randomUUID()\<close>
  returns when it is called, \<open>created\<close> the outcome of the \<^verbatim>\<open>create_strategy\<close> command.\<close>

definition createStrategy_request :: "string \<Rightarrow> CreateStrategyData \<Rightarrow> CreateStrategyRequest" where
  "createStrategy_request randomUUID data =
     (let webhookId = or_string (d_webhook_id data) randomUUID in
      \<lparr>r_name = d_name data,
       r_webhook_id = webhookId,
       r_exchange = or_string (d_exchange data) [],
       r_symbol = or_string (d_symbol data) [],
       r_product = or_string (d_product data) ''MIS'',
       r_quantity = or_number (d_quantity data) 1,
       r_enabled = (case d_enabled data of None \<Rightarrow> True | Some b \<Rightarrow> b),
       r_platform = d_platform data,
       r_strategy_type = d_strategy_type data,
       r_trading_mode = d_trading_mode data,
       r_start_time = d_start_time data,
       r_end_time = d_end_time data,
       r_squareoff_time = d_squareoff_time data\<rparr>)"

definition createStrategy ::
  "string \<Rightarrow> Strategy result \<Rightarrow> CreateStrategyData \<Rightarrow> number ApiResponse \<times> command list" where
  "createStrategy randomUUID created data =
     (let request = createStrategy_request randomUUID data in
      case created of
        Inr strategy \<Rightarrow> (api_success (Some (st_id strategy)), [CreateStrategy request])
      | Inl msg \<Rightarrow> (api_error msg, [CreateStrategy request]))"

section \<open>Properties of the auth store\<close>

lemma logout_resets: "logout backend s = initialStore"
  by (cases backend) (simp_all add: logout_def initialStore_def)

lemma checkSession_user_iff:
  "isAuthenticated (snd (checkSession backend s)) \<longrightarrow> user (snd (checkSession backend s)) \<noteq> None"
  if "isAuthenticated s \<longrightarrow> user s \<noteq> None"
  using that
  by (auto simp: checkSession_def split: sum.splits option.splits bool.splits)

text \<open>In every store the actions can produce, an authenticated session has a user: each
  \<^verbatim>\<open>set\<close> that makes \<^verbatim>\<open>isAuthenticated\<close> true stores a user with it.\<close>

lemma reachable_authenticated_has_user:
  "reachable s \<Longrightarrow> isAuthenticated s \<longrightarrow> user s \<noteq> None"
proof (induction rule: reachable.induct)
  case reachable_initial
  show ?case by (simp add: initialStore_def)
next
  case (reachable_login s response now)
  then show ?case
    by (auto simp: login_def Let_def split: sum.splits)
next
  case (reachable_brokerLogin s bresponse)
  then show ?case
    by (auto simp: brokerLogin_def Let_def split: sum.splits option.splits)
next
  case (reachable_brokerLogout s outcome)
  then show ?case
    by (auto simp: brokerLogout_def Let_def split: sum.splits option.splits)
next
  case (reachable_checkSession s session)
  then show ?case by (simp add: checkSession_user_iff)
next
  case (reachable_refreshSession s session)
  then show ?case
    using checkSession_user_iff [of s session]
    by (auto simp: refreshSession_def split: prod.splits)
qed (simp_all add: setUser_def setApiKey_def logout_resets initialStore_def clearError_def)

text \<open>
  Claim C2. \<^verbatim>\<open>logout\<close> clears the session unconditionally and is idempotent: from every
  store, and whether the backend command resolves or throws, the store after \<^verbatim>\<open>logout\<close>
  holds no user, no API key, \<^verbatim>\<open>isAuthenticated = false\<close>, \<^verbatim>\<open>brokerConnected = false\<close> and
  no error; a second \<^verbatim>\<open>logout\<close>, with any backend outcome, leaves that store as it is.
\<close>

theorem logout_clears_and_idempotent:
  "user (logout backend s) = None \<and> apiKey (logout backend s) = None \<and>
   isAuthenticated (logout backend s) = False \<and> brokerConnected (logout backend s) = False \<and>
   error (logout backend s) = None \<and>
   logout backend' (logout backend s) = logout backend s"
  by (simp add: logout_resets initialStore_def)

theorem logout_clears_and_idempotent_witness:
  "(let s = \<lparr>user = Some \<lparr>username = ''alice'', broker = Some ''AB1234'',
                          brokerId = Some ''fyers'', isLoggedIn = True,
                          loginTime = Some ''2026-01-19T09:15:00.000Z''\<rparr>,
              apiKey = Some ''key'', isAuthenticated = True, brokerConnected = True,
              isLoading = False, error = Some ''stale''\<rparr>;
        s1 = logout (Inl ''keychain locked'') s
    in user s1 = None \<and> apiKey s1 = None \<and> isAuthenticated s1 = False \<and>
       brokerConnected s1 = False \<and> error s1 = None \<and> logout (Inr ()) s1 = s1)"
  using logout_clears_and_idempotent
    [of "Inl ''keychain locked''"
        "\<lparr>user = Some \<lparr>username = ''alice'', broker = Some ''AB1234'',
                          brokerId = Some ''fyers'', isLoggedIn = True,
                          loginTime = Some ''2026-01-19T09:15:00.000Z''\<rparr>,
              apiKey = Some ''key'', isAuthenticated = True, brokerConnected = True,
              isLoading = False, error = Some ''stale''\<rparr>"
        "Inr ()"]
  by (simp add: Let_def)

text \<open>
  Claim C6. A successful \<^verbatim>\<open>brokerLogout\<close> changes only the broker-session fields: in an
  authenticated store, whose user is \<open>u\<close>, the user afterwards has the same
  \<^verbatim>\<open>username\<close>, \<^verbatim>\<open>isLoggedIn\<close> and \<^verbatim>\<open>loginTime\<close> and no \<^verbatim>\<open>broker\<close> and \<^verbatim>\<open>brokerId\<close>;
  \<^verbatim>\<open>apiKey\<close> and \<^verbatim>\<open>isAuthenticated\<close> are unchanged and \<^verbatim>\<open>brokerConnected\<close> is false. The
  app session survives the logout of the broker session.
\<close>

theorem brokerLogout_frame:
  assumes "isAuthenticated s" and "user s = Some u"
  shows "\<exists>u'. user (brokerLogout (Inr ()) s) = Some u' \<and>
           username u' = username u \<and> isLoggedIn u' = isLoggedIn u \<and>
           loginTime u' = loginTime u \<and> broker u' = None \<and> brokerId u' = None \<and>
           apiKey (brokerLogout (Inr ()) s) = apiKey s \<and>
           isAuthenticated (brokerLogout (Inr ()) s) = isAuthenticated s \<and>
           brokerConnected (brokerLogout (Inr ()) s) = False"
  using assms by (simp add: brokerLogout_def)

theorem brokerLogout_frame_witness:
  "(let u = \<lparr>username = ''alice'', broker = Some ''AB1234'', brokerId = Some ''fyers'',
             isLoggedIn = True, loginTime = Some ''2026-01-19T09:15:00.000Z''\<rparr>;
        s = \<lparr>user = Some u, apiKey = Some ''key'', isAuthenticated = True,
             brokerConnected = True, isLoading = False, error = None\<rparr>;
        s1 = brokerLogout (Inr ()) s
    in isAuthenticated s \<and> user s = Some u \<and>
       user s1 = Some \<lparr>username = ''alice'', broker = None, brokerId = None,
                        isLoggedIn = True, loginTime = Some ''2026-01-19T09:15:00.000Z''\<rparr> \<and>
       apiKey s1 = Some ''key'' \<and> isAuthenticated s1 = True \<and> brokerConnected s1 = False)"
proof -
  let ?u = "\<lparr>username = ''alice'', broker = Some ''AB1234'', brokerId = Some ''fyers'',
             isLoggedIn = True, loginTime = Some ''2026-01-19T09:15:00.000Z''\<rparr>"
  let ?s = "\<lparr>user = Some ?u, apiKey = Some ''key'', isAuthenticated = True,
             brokerConnected = True, isLoading = False, error = None\<rparr>"
  have a: "isAuthenticated ?s" by simp
  have b: "user ?s = Some ?u" by simp
  from brokerLogout_frame [OF a b] show ?thesis
    by (auto simp: Let_def)
qed

text \<open>
  Claim C4, as stated, fails: \<^verbatim>\<open>checkSession\<close> writes the backend's answer into the store.
  From the initial store, when the backend reports an authenticated session with a
  connected broker, \<^verbatim>\<open>user\<close>, \<^verbatim>\<open>isAuthenticated\<close> and \<^verbatim>\<open>brokerConnected\<close> all change.
\<close>

theorem checkSession_changes_store:
  "user (snd (checkSession
         (Inr \<lparr>authenticated = True,
               si_user = Some \<lparr>ui_user_id = 1, ui_username = ''alice'',
                                ui_authenticated_at = ''2026-01-19T09:15:00.000Z''\<rparr>,
               si_broker = Some \<lparr>bs_connected = True, bs_broker_id = Some ''fyers'',
                                  bs_user_id = Some ''AB1234'',
                                  bs_authenticated_at = None\<rparr>\<rparr>)
         initialStore)) \<noteq> user initialStore \<and>
   isAuthenticated (snd (checkSession
         (Inr \<lparr>authenticated = True,
               si_user = Some \<lparr>ui_user_id = 1, ui_username = ''alice'',
                                ui_authenticated_at = ''2026-01-19T09:15:00.000Z''\<rparr>,
               si_broker = Some \<lparr>bs_connected = True, bs_broker_id = Some ''fyers'',
                                  bs_user_id = Some ''AB1234'',
                                  bs_authenticated_at = None\<rparr>\<rparr>)
         initialStore)) \<noteq> isAuthenticated initialStore \<and>
   brokerConnected (snd (checkSession
         (Inr \<lparr>authenticated = True,
               si_user = Some \<lparr>ui_user_id = 1, ui_username = ''alice'',
                                ui_authenticated_at = ''2026-01-19T09:15:00.000Z''\<rparr>,
               si_broker = Some \<lparr>bs_connected = True, bs_broker_id = Some ''fyers'',
                                  bs_user_id = Some ''AB1234'',
                                  bs_authenticated_at = None\<rparr>\<rparr>)
         initialStore)) \<noteq> brokerConnected initialStore"
  by (simp add: checkSession_def initialStore_def broker_field_def truthy_bool_def)

text \<open>
  Claim C4, amended. \<^verbatim>\<open>checkSession\<close> reports whether the backend holds an authenticated
  session with a user, and synchronises the store with that answer. It never changes
  \<^verbatim>\<open>apiKey\<close>, \<^verbatim>\<open>isLoading\<close> and \<^verbatim>\<open>error\<close>. When the backend query throws, it returns
  false and leaves the whole store as it is. When the backend answers, the returned
  boolean is "authenticated, with a user"; \<^verbatim>\<open>isAuthenticated\<close> becomes that boolean,
  \<^verbatim>\<open>user\<close> becomes the user built from the session when it is true and \<^verbatim>\<open>null\<close> when it
  is false, and \<^verbatim>\<open>brokerConnected\<close> becomes the broker's \<^verbatim>\<open>connected\<close> flag when it is
  true and false otherwise.
\<close>

theorem checkSession_synchronises:
  assumes "checkSession backend s = (ok, s')"
  shows "apiKey s' = apiKey s \<and> isLoading s' = isLoading s \<and> error s' = error s \<and>
     (case backend of
        Inl msg \<Rightarrow> ok = False \<and> s' = s
      | Inr session \<Rightarrow>
          ok = (authenticated session \<and> si_user session \<noteq> None) \<and>
          isAuthenticated s' = ok \<and>
          user s' =
            (if ok
             then map_option
                    (\<lambda>u. \<lparr>username = ui_username u,
                          broker = or_null (broker_field bs_user_id session),
                          brokerId = or_null (broker_field bs_broker_id session),
                          isLoggedIn = True,
                          loginTime = Some (ui_authenticated_at u)\<rparr>)
                    (si_user session)
             else None) \<and>
          brokerConnected s' =
            (ok \<and> truthy_bool (broker_field (\<lambda>b. Some (bs_connected b)) session)))"
  using assms
  by (auto simp: checkSession_def split: sum.splits option.splits bool.splits)

theorem checkSession_synchronises_witness:
  "(let session = \<lparr>authenticated = True,
                   si_user = Some \<lparr>ui_user_id = 1, ui_username = ''alice'',
                                    ui_authenticated_at = ''2026-01-19T09:15:00.000Z''\<rparr>,
                   si_broker = Some \<lparr>bs_connected = True, bs_broker_id = Some ''fyers'',
                                      bs_user_id = Some [], bs_authenticated_at = None\<rparr>\<rparr>;
        s = initialStore\<lparr>apiKey := Some ''key'', error := Some ''stale''\<rparr>
    in checkSession (Inr session) s =
         (True,
          \<lparr>user = Some \<lparr>username = ''alice'', broker = None, brokerId = Some ''fyers'',
                         isLoggedIn = True, loginTime = Some ''2026-01-19T09:15:00.000Z''\<rparr>,
           apiKey = Some ''key'', isAuthenticated = True, brokerConnected = True,
           isLoading = False, error = Some ''stale''\<rparr>) \<and>
       checkSession (Inl ''keychain locked'') s = (False, s))"
proof -
  let ?session = "\<lparr>authenticated = True,
                   si_user = Some \<lparr>ui_user_id = 1, ui_username = ''alice'',
                                    ui_authenticated_at = ''2026-01-19T09:15:00.000Z''\<rparr>,
                   si_broker = Some \<lparr>bs_connected = True, bs_broker_id = Some ''fyers'',
                                      bs_user_id = Some [], bs_authenticated_at = None\<rparr>\<rparr>"
  let ?s = "initialStore\<lparr>apiKey := Some ''key'', error := Some ''stale''\<rparr>"
  obtain ok s' where r: "checkSession (Inr ?session) ?s = (ok, s')"
    by (cases "checkSession (Inr ?session) ?s")
  obtain ok2 s2 where r2: "checkSession (Inl ''keychain locked'') ?s = (ok2, s2)"
    by (cases "checkSession (Inl ''keychain locked'') ?s")
  from checkSession_synchronises [OF r]
  have "ok = True \<and> isAuthenticated s' = True \<and> brokerConnected s' = True \<and>
        apiKey s' = Some ''key'' \<and> isLoading s' = False \<and> error s' = Some ''stale'' \<and>
        user s' = Some \<lparr>username = ''alice'', broker = None, brokerId = Some ''fyers'',
                         isLoggedIn = True, loginTime = Some ''2026-01-19T09:15:00.000Z''\<rparr>"
    by (simp add: initialStore_def broker_field_def or_null_def truthy_string_def truthy_bool_def)
  moreover from checkSession_synchronises [OF r2] have "ok2 = False \<and> s2 = ?s"
    by simp
  ultimately show ?thesis
    using r r2 by (simp add: Let_def)
qed

section \<open>Properties of the auto-logout hook\<close>

text \<open>
  Claim C3. For every \<^verbatim>\<open>auto_logout\<close> event that reaches the hook while it is enabled and
  the client is authenticated, the listener shows the final notice, performs \<^verbatim>\<open>logout\<close>
  and then navigates to \<^verbatim>\<open>/login\<close> with \<^verbatim>\<open>replace = true\<close> and state reason
  \<^verbatim>\<open>auto_logout\<close>; at the navigation the store is the one \<^verbatim>\<open>logout\<close> leaves, with no
  user and \<^verbatim>\<open>isAuthenticated = false\<close>, whether the backend logout resolves or throws.
\<close>

theorem auto_logout_logs_out_then_navigates:
  assumes "enabled" and "isAuthenticated s"
  shows "useAutoLogout enabled (AutoLogout payload) backend s =
           (logout backend s,
            [Toast Info (reason payload)
               (Some \<lparr>duration = 5000, toast_id = ''auto-logout-executed''\<rparr>),
             Navigate ''/login'' \<lparr>replace = True, state_reason = ''auto_logout''\<rparr>]) \<and>
         user (logout backend s) = None \<and>
         isAuthenticated (logout backend s) = False"
  using assms
  by (simp add: useAutoLogout_def auto_logout_listener_def logout_resets initialStore_def)

theorem auto_logout_logs_out_then_navigates_witness:
  "(let s = \<lparr>user = Some \<lparr>username = ''alice'', broker = Some ''AB1234'',
                          brokerId = Some ''fyers'', isLoggedIn = True,
                          loginTime = Some ''2026-01-19T09:15:00.000Z''\<rparr>,
              apiKey = None, isAuthenticated = True, brokerConnected = True,
              isLoading = False, error = None\<rparr>
    in isAuthenticated s \<and>
       useAutoLogout True
         (AutoLogout \<lparr>reason = ''Scheduled auto-logout'', al_timestamp = ''03:00''\<rparr>)
         (Inl ''broker unreachable'') s =
         (initialStore,
          [Toast Info ''Scheduled auto-logout''
             (Some \<lparr>duration = 5000, toast_id = ''auto-logout-executed''\<rparr>),
           Navigate ''/login'' \<lparr>replace = True, state_reason = ''auto_logout''\<rparr>]))"
proof -
  let ?s = "\<lparr>user = Some \<lparr>username = ''alice'', broker = Some ''AB1234'',
                          brokerId = Some ''fyers'', isLoggedIn = True,
                          loginTime = Some ''2026-01-19T09:15:00.000Z''\<rparr>,
              apiKey = None, isAuthenticated = True, brokerConnected = True,
              isLoading = False, error = None\<rparr>"
  have e: "True" by simp
  have a: "isAuthenticated ?s" by simp
  from auto_logout_logs_out_then_navigates [OF e a,
      of "\<lparr>reason = ''Scheduled auto-logout'', al_timestamp = ''03:00''\<rparr>"
         "Inl ''broker unreachable''"]
  show ?thesis
    by (simp add: Let_def logout_def initialStore_def)
qed

text \<open>
  Claim C5. For every \<^verbatim>\<open>auto_logout_warning\<close> event with \<^verbatim>\<open>minutes_remaining = m\<close> the
  listener shows exactly one toast, whose severity depends on \<open>m\<close> alone: error when
  \<open>m \<le> 1\<close>, warning when \<open>1 < m \<le> 5\<close>, info otherwise; the warnings 15 and 30 minutes
  ahead are info. The listener is the one the hook runs for the event while it is enabled
  and the client is authenticated, and it leaves the store as it is.
\<close>

theorem auto_logout_warning_one_toast:
  "auto_logout_warning_listener payload =
     [Toast (if minutes_remaining payload \<le> 1 then Error
             else if 1 < minutes_remaining payload \<and> minutes_remaining payload \<le> 5 then Warning
             else Info)
        (alw_message payload)
        (Some \<lparr>duration = 10000, toast_id = ''auto-logout-warning''\<rparr>)] \<and>
   getToastType 15 = Info \<and> getToastType 30 = Info \<and>
   (enabled \<and> isAuthenticated s \<longrightarrow>
      useAutoLogout enabled (AutoLogoutWarning payload) backend s =
        (s, auto_logout_warning_listener payload))"
  by (simp add: auto_logout_warning_listener_def getToastType_def useAutoLogout_def)

theorem auto_logout_warning_one_toast_witness:
  "auto_logout_warning_listener \<lparr>minutes_remaining = 5, alw_message = ''5 minutes left''\<rparr> =
     [Toast Warning ''5 minutes left''
        (Some \<lparr>duration = 10000, toast_id = ''auto-logout-warning''\<rparr>)] \<and>
   auto_logout_warning_listener \<lparr>minutes_remaining = 1, alw_message = ''1 minute left''\<rparr> =
     [Toast Error ''1 minute left''
        (Some \<lparr>duration = 10000, toast_id = ''auto-logout-warning''\<rparr>)] \<and>
   useAutoLogout True
     (AutoLogoutWarning \<lparr>minutes_remaining = 30, alw_message = ''30 minutes left''\<rparr>)
     (Inr ()) (initialStore\<lparr>isAuthenticated := True\<rparr>) =
     (initialStore\<lparr>isAuthenticated := True\<rparr>,
      [Toast Info ''30 minutes left''
         (Some \<lparr>duration = 10000, toast_id = ''auto-logout-warning''\<rparr>)])"
  using
    auto_logout_warning_one_toast
      [of "\<lparr>minutes_remaining = 5, alw_message = ''5 minutes left''\<rparr>"
          True "initialStore\<lparr>isAuthenticated := True\<rparr>" "Inr ()"]
    auto_logout_warning_one_toast
      [of "\<lparr>minutes_remaining = 1, alw_message = ''1 minute left''\<rparr>"
          True "initialStore\<lparr>isAuthenticated := True\<rparr>" "Inr ()"]
    auto_logout_warning_one_toast
      [of "\<lparr>minutes_remaining = 30, alw_message = ''30 minutes left''\<rparr>"
          True "initialStore\<lparr>isAuthenticated := True\<rparr>" "Inr ()"]
  by simp

section \<open>Properties of the socket hook\<close>

lemma playAlertSound_effects:
  "snd (playAlertSound now played refs) =
     (if (now - lastAudioTime refs < 1000 \<and> lastAudioTime refs \<noteq> 0) \<or> \<not> audioRef refs
      then [] else [PlayAudio])"
  by (simp add: playAlertSound_def AUDIO_THROTTLE_MS_def Let_def)

lemma playAlertSound_refs:
  "audioRef (fst (playAlertSound now played refs)) = audioRef refs \<and>
   lastAudioTime (fst (playAlertSound now played refs)) =
     (if now - lastAudioTime refs < 1000 \<and> lastAudioTime refs \<noteq> 0
      then lastAudioTime refs else now)"
  by (simp add: playAlertSound_def AUDIO_THROTTLE_MS_def Let_def)

lemma order_event_listener_effects:
  "snd (order_event_listener now played d refs) =
     (if shouldPlayAudio d \<and> audioRef refs \<and>
         \<not> (now - lastAudioTime refs < 1000 \<and> lastAudioTime refs \<noteq> 0)
      then [PlayAudio] else []) @
     [Toast (if toUpperCase (oe_action d) = ''BUY'' then Success else Error)
        (order_message d) None]"
  by (simp add: order_event_listener_def playAlertSound_effects case_prod_beta)

lemma order_event_listener_refs:
  "audioRef (fst (order_event_listener now played d refs)) = audioRef refs \<and>
   lastAudioTime (fst (order_event_listener now played d refs)) =
     (if shouldPlayAudio d \<and> \<not> (now - lastAudioTime refs < 1000 \<and> lastAudioTime refs \<noteq> 0)
      then now else lastAudioTime refs)"
  by (simp add: order_event_listener_def playAlertSound_refs case_prod_beta)

lemma order_event_listener_silent:
  "\<not> shouldPlayAudio d \<Longrightarrow> fst (order_event_listener now played d refs) = refs"
  by (simp add: order_event_listener_def)

lemma order_events_toasts:
  "toasts (order_events evs refs) =
     map (\<lambda>(now, played, d).
            Toast (if toUpperCase (oe_action d) = ''BUY'' then Success else Error)
              (order_message d) None) evs"
proof (induction evs arbitrary: refs)
  case Nil
  show ?case by (simp add: toasts_def)
next
  case (Cons e evs)
  obtain now played d where e: "e = (now, played, d)" by (cases e)
  have "toasts (order_events (e # evs) refs) =
          filter is_toast (snd (order_event_listener now played d refs)) @
          toasts (order_events evs (fst (order_event_listener now played d refs)))"
    by (simp add: e toasts_def case_prod_beta comp_def)
  then show ?case
    by (simp add: Cons.IH e order_event_listener_effects)
qed

lemma play_times_Nil: "play_times (order_events [] refs) = []"
  by (simp add: play_times_def)

lemma order_events_play_times:
  "play_times (order_events ((now, played, d) # evs) refs) =
     (if shouldPlayAudio d \<and> audioRef refs \<and>
         \<not> (now - lastAudioTime refs < 1000 \<and> lastAudioTime refs \<noteq> 0)
      then [now] else []) @
     play_times (order_events evs (fst (order_event_listener now played d refs)))"
  by (simp add: play_times_def case_prod_beta order_event_listener_effects)

text \<open>Two sounds are at least a second apart, and none comes within a second of the last
  attempt recorded in the ref. The clock is read as nonzero, since the code takes a zero
  \<^verbatim>\<open>lastAudioTimeRef\<close> to mean that no attempt was made yet.\<close>

lemma order_events_throttled:
  assumes "\<forall>e \<in> set evs. fst e \<noteq> 0"
  shows "sorted_wrt (\<lambda>a b. a + 1000 \<le> b) (play_times (order_events evs refs)) \<and>
         (lastAudioTime refs \<noteq> 0 \<longrightarrow>
            (\<forall>t \<in> set (play_times (order_events evs refs)). lastAudioTime refs + 1000 \<le> t))"
  using assms
proof (induction evs arbitrary: refs)
  case Nil
  show ?case by (simp add: play_times_def)
next
  case (Cons e evs)
  obtain now played d where e: "e = (now, played, d)" by (cases e)
  let ?refs1 = "fst (order_event_listener now played d refs)"
  from Cons.prems have nz: "now \<noteq> 0" and rest: "\<forall>e \<in> set evs. fst e \<noteq> 0"
    by (simp_all add: e)
  note IH = Cons.IH [OF rest, of ?refs1]
  show ?case
  proof (cases "shouldPlayAudio d \<and>
                \<not> (now - lastAudioTime refs < 1000 \<and> lastAudioTime refs \<noteq> 0)")
    case True
    then have last1: "lastAudioTime ?refs1 = now"
      by (simp add: order_event_listener_refs)
    with IH nz have later: "\<forall>t \<in> set (play_times (order_events evs ?refs1)). now + 1000 \<le> t"
      by simp
    from True have gap: "lastAudioTime refs \<noteq> 0 \<longrightarrow> lastAudioTime refs + 1000 \<le> now"
      by auto
    show ?thesis
      unfolding e order_events_play_times
      using IH later gap by (auto simp: sorted_wrt_append)
  next
    case False
    then have last1: "lastAudioTime ?refs1 = lastAudioTime refs"
      by (auto simp: order_event_listener_refs)
    show ?thesis
      unfolding e order_events_play_times
      using IH False last1 by auto
  qed
qed

text \<open>
  Claim C8. While the client is authenticated, every \<^verbatim>\<open>order_event\<close> shows exactly one
  toast: success when the action in upper case is \<^verbatim>\<open>BUY\<close>, error for any other action.
  The alert sound is attempted exactly when the event is not a batch order or is the last
  order of its batch; an event that is neither leaves the audio refs untouched. An attempt
  plays the sound unless the previous attempt was less than 1000 ms earlier, so over any
  run of events (the clock never reading 0, which the code takes for "no attempt yet")
  any two sounds are at least 1000 ms apart.
\<close>

theorem order_event_toast_and_sound:
  assumes "isAuth"
  shows
    "useSocket isAuth [(now, played, d)] refs =
       (if (\<not> truthy_bool (batch_order d) \<or> truthy_bool (is_last_order d)) \<and>
           \<not> (now - lastAudioTime refs < 1000 \<and> lastAudioTime refs \<noteq> 0)
        then [(now, PlayAudio)] else []) @
       [(now, Toast (if toUpperCase (oe_action d) = ''BUY'' then Success else Error)
                (order_message d) None)] \<and>
     (truthy_bool (batch_order d) \<and> \<not> truthy_bool (is_last_order d) \<longrightarrow>
        fst (order_event_listener now played d refs) = refs) \<and>
     toasts (useSocket isAuth evs refs) =
       map (\<lambda>(now, played, d).
              Toast (if toUpperCase (oe_action d) = ''BUY'' then Success else Error)
                (order_message d) None) evs \<and>
     ((\<forall>e \<in> set evs. fst e \<noteq> 0) \<longrightarrow>
        sorted_wrt (\<lambda>a b. a + 1000 \<le> b) (play_times (useSocket isAuth evs refs)))"
proof (intro conjI impI)
  show "useSocket isAuth [(now, played, d)] refs =
       (if (\<not> truthy_bool (batch_order d) \<or> truthy_bool (is_last_order d)) \<and>
           \<not> (now - lastAudioTime refs < 1000 \<and> lastAudioTime refs \<noteq> 0)
        then [(now, PlayAudio)] else []) @
       [(now, Toast (if toUpperCase (oe_action d) = ''BUY'' then Success else Error)
                (order_message d) None)]"
    using assms
    by (simp add: useSocket_def case_prod_beta order_event_listener_effects shouldPlayAudio_def)
next
  assume "truthy_bool (batch_order d) \<and> \<not> truthy_bool (is_last_order d)"
  then have "\<not> shouldPlayAudio d"
    by (simp add: shouldPlayAudio_def)
  then show "fst (order_event_listener now played d refs) = refs"
    by (rule order_event_listener_silent)
next
  show "toasts (useSocket isAuth evs refs) =
       map (\<lambda>(now, played, d).
              Toast (if toUpperCase (oe_action d) = ''BUY'' then Success else Error)
                (order_message d) None) evs"
    using assms by (simp add: useSocket_def order_events_toasts)
next
  assume "\<forall>e \<in> set evs. fst e \<noteq> 0"
  then show "sorted_wrt (\<lambda>a b. a + 1000 \<le> b) (play_times (useSocket isAuth evs refs))"
    using assms order_events_throttled [of evs "refs\<lparr>audioRef := True\<rparr>"]
    by (simp add: useSocket_def)
qed

lemma toUpperCase_examples:
  "toUpperCase ''buy'' = ''BUY''" "toUpperCase ''SELL'' = ''SELL''"
  by code_simp+

theorem order_event_toast_and_sound_witness:
  "(let single = \<lparr>oe_symbol = ''RELIANCE'', oe_action = ''buy'', oe_orderid = ''1'',
                  batch_order = None, is_last_order = None\<rparr>;
        leg = \<lparr>oe_symbol = ''TCS'', oe_action = ''SELL'', oe_orderid = ''2'',
               batch_order = Some True, is_last_order = Some False\<rparr>;
        final = \<lparr>oe_symbol = ''INFY'', oe_action = ''SELL'', oe_orderid = ''3'',
                 batch_order = Some True, is_last_order = Some True\<rparr>;
        evs = [(5000, True, single), (5400, True, leg), (5600, True, final),
               (6100, True, final)]
    in useSocket True [(5000, True, single)] initialRefs =
         [(5000, PlayAudio),
          (5000, Toast Success ''BUY Order Placed for Symbol: RELIANCE, Order ID: 1'' None)] \<and>
       useSocket True [(5400, True, leg)] initialRefs =
         [(5400, Toast Error ''SELL Order Placed for Symbol: TCS, Order ID: 2'' None)] \<and>
       play_times (useSocket True evs initialRefs) = [5000, 6100] \<and>
       length (toasts (useSocket True evs initialRefs)) = 4 \<and>
       sorted_wrt (\<lambda>a b. a + 1000 \<le> b) (play_times (useSocket True evs initialRefs)))"
proof -
  let ?single = "\<lparr>oe_symbol = ''RELIANCE'', oe_action = ''buy'', oe_orderid = ''1'',
                  batch_order = None, is_last_order = None\<rparr>"
  let ?leg = "\<lparr>oe_symbol = ''TCS'', oe_action = ''SELL'', oe_orderid = ''2'',
               batch_order = Some True, is_last_order = Some False\<rparr>"
  let ?final = "\<lparr>oe_symbol = ''INFY'', oe_action = ''SELL'', oe_orderid = ''3'',
                 batch_order = Some True, is_last_order = Some True\<rparr>"
  let ?evs = "[(5000, True, ?single), (5400, True, ?leg), (5600, True, ?final),
               (6100, True, ?final)]"
  have auth: "True" by simp
  note a = order_event_toast_and_sound [OF auth, of 5000 True ?single initialRefs ?evs]
  note b = order_event_toast_and_sound [OF auth, of 5400 True ?leg initialRefs ?evs]
  have 1: "useSocket True [(5000, True, ?single)] initialRefs =
         [(5000, PlayAudio),
          (5000, Toast Success ''BUY Order Placed for Symbol: RELIANCE, Order ID: 1'' None)]"
    using a by (simp add: initialRefs_def truthy_bool_def order_message_def toUpperCase_examples)
  have 2: "useSocket True [(5400, True, ?leg)] initialRefs =
         [(5400, Toast Error ''SELL Order Placed for Symbol: TCS, Order ID: 2'' None)]"
    using b by (simp add: initialRefs_def truthy_bool_def order_message_def toUpperCase_examples)
  have 3: "length (toasts (useSocket True ?evs initialRefs)) = 4"
    using a by simp
  have 4: "sorted_wrt (\<lambda>a b. a + 1000 \<le> b) (play_times (useSocket True ?evs initialRefs))"
    using a by simp
  have 5: "play_times (useSocket True ?evs initialRefs) = [5000, 6100]"
    by (simp add: useSocket_def order_events_play_times order_event_listener_refs
        shouldPlayAudio_def truthy_bool_def initialRefs_def play_times_Nil
        del: order_events.simps)
  from 1 2 3 4 5 show ?thesis
    by (simp add: Let_def)
qed

section \<open>Properties of the trading and strategy APIs\<close>

text \<open>
  Claim C7. Every strategy created through \<^verbatim>\<open>createStrategy\<close> carries a webhook id: the
  one \<^verbatim>\<open>create_strategy\<close> command the function issues holds the caller's
  \<^verbatim>\<open>webhook_id\<close> when it is supplied and not empty, and the generated UUID otherwise, so
  also for a supplied empty string; as a UUID is not empty, neither is the webhook id.
\<close>

theorem createStrategy_webhook_id:
  "\<exists>request.
     snd (createStrategy randomUUID created data) = [CreateStrategy request] \<and>
     r_webhook_id request =
       (case d_webhook_id data of
          Some w \<Rightarrow> if w \<noteq> [] then w else randomUUID
        | None \<Rightarrow> randomUUID) \<and>
     (randomUUID \<noteq> [] \<longrightarrow> r_webhook_id request \<noteq> [])"
  by (cases created)
     (auto simp: createStrategy_def createStrategy_request_def or_string_def Let_def
           split: option.splits)

theorem createStrategy_webhook_id_witness:
  "(let data = \<lparr>d_name = ''Breakout'', d_platform = Some ''tradingview'',
                d_strategy_type = None, d_trading_mode = None, d_start_time = None,
                d_end_time = None, d_squareoff_time = None, d_webhook_id = Some [],
                d_exchange = Some ''NSE'', d_symbol = Some ''RELIANCE'', d_product = None,
                d_quantity = Some 0, d_enabled = None\<rparr>;
        uuid = ''123e4567-e89b-42d3-a456-426614174000''
    in (\<exists>request.
          snd (createStrategy uuid (Inl ''database is locked'') data) = [CreateStrategy request] \<and>
          r_webhook_id request = uuid) \<and>
       (\<exists>request.
          snd (createStrategy uuid (Inl ''database is locked'')
                 (data\<lparr>d_webhook_id := Some ''u1''\<rparr>)) = [CreateStrategy request] \<and>
          r_webhook_id request = ''u1''))"
  using
    createStrategy_webhook_id
      [of "''123e4567-e89b-42d3-a456-426614174000''" "Inl ''database is locked''"
          "\<lparr>d_name = ''Breakout'', d_platform = Some ''tradingview'',
                d_strategy_type = None, d_trading_mode = None, d_start_time = None,
                d_end_time = None, d_squareoff_time = None, d_webhook_id = Some [],
                d_exchange = Some ''NSE'', d_symbol = Some ''RELIANCE'', d_product = None,
                d_quantity = Some 0, d_enabled = None\<rparr>"]
    createStrategy_webhook_id
      [of "''123e4567-e89b-42d3-a456-426614174000''" "Inl ''database is locked''"
          "\<lparr>d_name = ''Breakout'', d_platform = Some ''tradingview'',
                d_strategy_type = None, d_trading_mode = None, d_start_time = None,
                d_end_time = None, d_squareoff_time = None, d_webhook_id = Some ''u1'',
                d_exchange = Some ''NSE'', d_symbol = Some ''RELIANCE'', d_product = None,
                d_quantity = Some 0, d_enabled = None\<rparr>"]
  by (fastforce simp: Let_def)

lemma closePosition_not_found:
  assumes "find (\<lambda>p. p_symbol p = symbol \<and> p_exchange p = exchange \<and> p_product p = product)
             positions = None"
  shows "closePosition (Inr positions) close_result symbol exchange product =
           (api_error ''Position not found or already closed'', [GetPositions])"
  using assms by (simp add: closePosition_def)

lemma closePosition_flat:
  assumes "find (\<lambda>p. p_symbol p = symbol \<and> p_exchange p = exchange \<and> p_product p = product)
             positions = Some position"
      and "p_quantity position = 0"
  shows "closePosition (Inr positions) close_result symbol exchange product =
           (api_error ''Position not found or already closed'', [GetPositions])"
  using assms by (simp add: closePosition_def)

lemma closePosition_open:
  assumes "find (\<lambda>p. p_symbol p = symbol \<and> p_exchange p = exchange \<and> p_product p = product)
             positions = Some position"
      and "p_quantity position \<noteq> 0"
  shows "snd (closePosition (Inr positions) close_result symbol exchange product) =
           [GetPositions,
            ClosePosition
              \<lparr>cp_symbol = symbol, cp_exchange = exchange, cp_product = product,
               cp_quantity = \<bar>p_quantity position\<bar>,
               cp_position_type = (if p_quantity position > 0 then ''long'' else ''short'')\<rparr>]"
  using assms by (cases close_result) (simp_all add: closePosition_def)

text \<open>
  Claim C9. \<^verbatim>\<open>closePosition\<close> is guarded. Over a fetched position book, let the matching
  position be the first one with the given symbol, exchange and product (there is none
  exactly when the book holds no such position). When there is none, or its quantity is
  0, the result has status \<^verbatim>\<open>error\<close> and message \<^verbatim>\<open>Position not found or already closed\<close> and no
  \<^verbatim>\<open>close_position\<close> command is issued. Otherwise exactly one \<^verbatim>\<open>close_position\<close>
  command is issued, for the given symbol, exchange and product, with quantity \<open>\<bar>q\<bar>\<close> and
  position type \<^verbatim>\<open>long\<close> if \<open>q > 0\<close> and \<^verbatim>\<open>short\<close> if \<open>q < 0\<close>, \<open>q\<close> being the quantity
  of the matching position. When the book cannot be fetched, no command is issued either.
\<close>

theorem closePosition_guarded:
  "(let matching = find (\<lambda>p. p_symbol p = symbol \<and> p_exchange p = exchange \<and>
                              p_product p = product) positions;
        (response, commands) = closePosition (Inr positions) close_result symbol exchange product
    in (matching = None) =
         (\<forall>p \<in> set positions.
            \<not> (p_symbol p = symbol \<and> p_exchange p = exchange \<and> p_product p = product)) \<and>
       (case matching of
          None \<Rightarrow>
            api_status response = ''error'' \<and>
            api_message response = Some ''Position not found or already closed'' \<and>
            filter is_close commands = []
        | Some position \<Rightarrow>
            if p_quantity position = 0
            then api_status response = ''error'' \<and>
                 api_message response = Some ''Position not found or already closed'' \<and>
                 filter is_close commands = []
            else (\<exists>request.
                    filter is_close commands = [ClosePosition request] \<and>
                    cp_symbol request = symbol \<and> cp_exchange request = exchange \<and>
                    cp_product request = product \<and>
                    cp_quantity request = \<bar>p_quantity position\<bar> \<and>
                    (0 < p_quantity position \<longrightarrow> cp_position_type request = ''long'') \<and>
                    (p_quantity position < 0 \<longrightarrow> cp_position_type request = ''short'')))) \<and>
   filter is_close (snd (closePosition (Inl msg) close_result symbol exchange product)) = []"
proof -
  let ?matches = "\<lambda>p. p_symbol p = symbol \<and> p_exchange p = exchange \<and> p_product p = product"
  have failed: "filter is_close (snd (closePosition (Inl msg) close_result symbol exchange product)) = []"
    by (simp add: closePosition_def)
  have none_iff: "(find ?matches positions = None) = (\<forall>p \<in> set positions. \<not> ?matches p)"
    by (auto simp: find_None_iff)
  show ?thesis
  proof (cases "find ?matches positions")
    case None
    with none_iff failed show ?thesis
      by (simp add: closePosition_not_found api_error_def)
  next
    case (Some position)
    show ?thesis
    proof (cases "p_quantity position = 0")
      case True
      with Some none_iff failed show ?thesis
        by (simp add: closePosition_flat api_error_def)
    next
      case False
      from closePosition_open [OF Some False, of close_result]
      show ?thesis using Some False none_iff failed
        by (auto simp: case_prod_beta)
    qed
  qed
qed

theorem closePosition_guarded_witness:
  "(let book = [\<lparr>p_symbol = ''TCS'', p_exchange = ''NSE'', p_product = ''MIS'', p_quantity = 0\<rparr>,
                \<lparr>p_symbol = ''RELIANCE'', p_exchange = ''NSE'', p_product = ''MIS'',
                 p_quantity = - 5\<rparr>];
        outcome = Inr \<lparr>cpr_success = True, cpr_order_id = Some ''42'', cpr_message = ''ok''\<rparr>
    in closePosition (Inr book) outcome ''RELIANCE'' ''NSE'' ''MIS'' =
         (\<lparr>api_status = ''success'', api_data = None, api_message = None\<rparr>,
          [GetPositions,
           ClosePosition \<lparr>cp_symbol = ''RELIANCE'', cp_exchange = ''NSE'', cp_product = ''MIS'',
                          cp_quantity = 5, cp_position_type = ''short''\<rparr>]) \<and>
       closePosition (Inr book) outcome ''TCS'' ''NSE'' ''MIS'' =
         (\<lparr>api_status = ''error'', api_data = None,
           api_message = Some ''Position not found or already closed''\<rparr>, [GetPositions]) \<and>
       closePosition (Inr book) outcome ''INFY'' ''NSE'' ''MIS'' =
         (\<lparr>api_status = ''error'', api_data = None,
           api_message = Some ''Position not found or already closed''\<rparr>, [GetPositions]) \<and>
       api_status (fst (closePosition (Inr book) outcome ''TCS'' ''NSE'' ''MIS'')) = ''error'' \<and>
       api_message (fst (closePosition (Inr book) outcome ''INFY'' ''NSE'' ''MIS'')) =
         Some ''Position not found or already closed'' \<and>
       (\<exists>request.
          filter is_close (snd (closePosition (Inr book) outcome ''RELIANCE'' ''NSE'' ''MIS'')) =
            [ClosePosition request] \<and>
          cp_quantity request = 5 \<and> cp_position_type request = ''short''))"
proof -
  let ?book = "[\<lparr>p_symbol = ''TCS'', p_exchange = ''NSE'', p_product = ''MIS'', p_quantity = 0\<rparr>,
                \<lparr>p_symbol = ''RELIANCE'', p_exchange = ''NSE'', p_product = ''MIS'',
                 p_quantity = - 5\<rparr>]"
  let ?done = "Inr \<lparr>cpr_success = True, cpr_order_id = Some ''42'', cpr_message = ''ok''\<rparr>"
  have evaluated:
    "closePosition (Inr ?book) ?done ''RELIANCE'' ''NSE'' ''MIS'' =
         (\<lparr>api_status = ''success'', api_data = None, api_message = None\<rparr>,
          [GetPositions,
           ClosePosition \<lparr>cp_symbol = ''RELIANCE'', cp_exchange = ''NSE'', cp_product = ''MIS'',
                          cp_quantity = 5, cp_position_type = ''short''\<rparr>]) \<and>
     closePosition (Inr ?book) ?done ''TCS'' ''NSE'' ''MIS'' =
         (\<lparr>api_status = ''error'', api_data = None,
           api_message = Some ''Position not found or already closed''\<rparr>, [GetPositions]) \<and>
     closePosition (Inr ?book) ?done ''INFY'' ''NSE'' ''MIS'' =
         (\<lparr>api_status = ''error'', api_data = None,
           api_message = Some ''Position not found or already closed''\<rparr>, [GetPositions])"
    by (simp add: closePosition_def api_error_def api_success_def)
  from closePosition_guarded [of "''TCS''" "''NSE''" "''MIS''" ?book ?done "''timeout''"]
  have flat: "api_status (fst (closePosition (Inr ?book) ?done ''TCS'' ''NSE'' ''MIS'')) = ''error''"
    by (simp add: case_prod_beta Let_def)
  from closePosition_guarded [of "''INFY''" "''NSE''" "''MIS''" ?book ?done "''timeout''"]
  have absent: "api_message (fst (closePosition (Inr ?book) ?done ''INFY'' ''NSE'' ''MIS'')) =
         Some ''Position not found or already closed''"
    by (simp add: case_prod_beta Let_def)
  from closePosition_guarded [of "''RELIANCE''" "''NSE''" "''MIS''" ?book ?done "''timeout''"]
  have "\<exists>request.
          filter is_close (snd (closePosition (Inr ?book) ?done ''RELIANCE'' ''NSE'' ''MIS'')) =
            [ClosePosition request] \<and>
          cp_quantity request = 5 \<and> cp_position_type request = ''short''"
    by (auto simp: case_prod_beta)
  with evaluated flat absent show ?thesis
    by (simp add: Let_def)
qed

lemma is_pending_iff:
  "is_pending ord \<longleftrightarrow> status ord \<in> {''pending'', ''open'', ''trigger_pending''}"
  by (auto simp: is_pending_def)

lemma filter_is_cancel_issued:
  "filter is_cancel (map (\<lambda>ord. CancelOrder (order_id ord)) xs) =
     map (\<lambda>ord. CancelOrder (order_id ord)) xs"
  by (induction xs) simp_all

lemma cancelAllOrders_commands:
  "snd (cancelAllOrders (Inr orders) cancel) =
     GetOrderBook # map (\<lambda>ord. CancelOrder (order_id ord)) (filter is_pending orders)"
  by (simp add: cancelAllOrders_def Let_def split: option.splits)

lemma distinct_order_id_eq:
  assumes "distinct (map order_id orders)" and "a \<in> set orders" and "b \<in> set orders"
      and "order_id a = order_id b"
  shows "a = b"
  using assms by (meson distinct_map inj_on_eq_iff)

text \<open>
  Claim C10. \<^verbatim>\<open>cancelAllOrders\<close> issues one cancel request for each order of the fetched
  order book whose \<^verbatim>\<open>status\<close> is \<^verbatim>\<open>pending\<close>, \<^verbatim>\<open>open\<close> or \<^verbatim>\<open>trigger_pending\<close>, in
  the order of the book, and no other cancel request. With distinct order ids, a cancel
  request for an order of the book is issued exactly when its status is one of the three;
  an order whose status is \<^verbatim>\<open>complete\<close>, \<^verbatim>\<open>rejected\<close>, \<^verbatim>\<open>cancelled\<close> or
  \<^verbatim>\<open>trigger pending\<close> (with a space) is not among the orders to cancel.
\<close>

theorem cancelAllOrders_cancels_pending:
  "filter is_cancel (snd (cancelAllOrders (Inr orders) cancel)) =
     map (\<lambda>ord. CancelOrder (order_id ord))
       (filter (\<lambda>ord. status ord \<in> {''pending'', ''open'', ''trigger_pending''}) orders) \<and>
   (distinct (map order_id orders) \<longrightarrow>
      (\<forall>ord \<in> set orders.
         CancelOrder (order_id ord) \<in> set (snd (cancelAllOrders (Inr orders) cancel)) \<longleftrightarrow>
         status ord \<in> {''pending'', ''open'', ''trigger_pending''})) \<and>
   (\<forall>ord \<in> set orders.
      status ord \<in> {''complete'', ''rejected'', ''cancelled'', ''trigger pending''} \<longrightarrow>
      ord \<notin> set (filter is_pending orders))"
proof (intro conjI impI ballI)
  have "(\<lambda>ord. status ord \<in> {''pending'', ''open'', ''trigger_pending''}) = is_pending"
    by (rule ext) (simp add: is_pending_iff)
  then show "filter is_cancel (snd (cancelAllOrders (Inr orders) cancel)) =
     map (\<lambda>ord. CancelOrder (order_id ord))
       (filter (\<lambda>ord. status ord \<in> {''pending'', ''open'', ''trigger_pending''}) orders)"
    by (simp add: cancelAllOrders_commands filter_is_cancel_issued)
next
  fix ord
  assume d: "distinct (map order_id orders)" and m: "ord \<in> set orders"
  have "CancelOrder (order_id ord) \<in> set (snd (cancelAllOrders (Inr orders) cancel)) \<longleftrightarrow>
        (\<exists>x \<in> set orders. is_pending x \<and> order_id x = order_id ord)"
    by (force simp: cancelAllOrders_commands image_iff)
  also have "\<dots> \<longleftrightarrow> is_pending ord"
    using distinct_order_id_eq [OF d _ m] m by blast
  finally show "CancelOrder (order_id ord) \<in> set (snd (cancelAllOrders (Inr orders) cancel)) \<longleftrightarrow>
        status ord \<in> {''pending'', ''open'', ''trigger_pending''}"
    by (simp add: is_pending_iff)
next
  fix ord
  assume "ord \<in> set orders"
     and "status ord \<in> {''complete'', ''rejected'', ''cancelled'', ''trigger pending''}"
  then have "\<not> is_pending ord"
    by (auto simp: is_pending_def)
  then show "ord \<notin> set (filter is_pending orders)"
    by simp
qed

theorem cancelAllOrders_cancels_pending_witness:
  "(let book = [\<lparr>order_id = ''A1'', status = ''open'', order_status = ''open''\<rparr>,
                \<lparr>order_id = ''A2'', status = ''complete'', order_status = ''complete''\<rparr>,
                \<lparr>order_id = ''A3'', status = ''trigger pending'',
                 order_status = ''trigger pending''\<rparr>,
                \<lparr>order_id = ''A4'', status = ''trigger_pending'',
                 order_status = ''trigger pending''\<rparr>,
                \<lparr>order_id = ''A5'', status = ''pending'', order_status = ''pending''\<rparr>];
        refuse = (\<lambda>orderid. Inl ''rejected by broker'')
    in distinct (map order_id book) \<and>
       filter is_cancel (snd (cancelAllOrders (Inr book) refuse)) =
         [CancelOrder ''A1'', CancelOrder ''A4'', CancelOrder ''A5''] \<and>
       CancelOrder ''A3'' \<notin> set (snd (cancelAllOrders (Inr book) refuse)) \<and>
       CancelOrder ''A4'' \<in> set (snd (cancelAllOrders (Inr book) refuse)))"
proof -
  let ?book = "[\<lparr>order_id = ''A1'', status = ''open'', order_status = ''open''\<rparr>,
                \<lparr>order_id = ''A2'', status = ''complete'', order_status = ''complete''\<rparr>,
                \<lparr>order_id = ''A3'', status = ''trigger pending'',
                 order_status = ''trigger pending''\<rparr>,
                \<lparr>order_id = ''A4'', status = ''trigger_pending'',
                 order_status = ''trigger pending''\<rparr>,
                \<lparr>order_id = ''A5'', status = ''pending'', order_status = ''pending''\<rparr>]"
  let ?refuse = "\<lambda>orderid :: string. (Inl ''rejected by broker'' :: OrderResponse result)"
  have d: "distinct (map order_id ?book)" by simp
  note t = cancelAllOrders_cancels_pending [of ?book ?refuse]
  from t have 1: "filter is_cancel (snd (cancelAllOrders (Inr ?book) ?refuse)) =
         [CancelOrder ''A1'', CancelOrder ''A4'', CancelOrder ''A5'']"
    by simp
  from t d have 2: "CancelOrder ''A3'' \<notin> set (snd (cancelAllOrders (Inr ?book) ?refuse))"
    by simp
  from t d have 3: "CancelOrder ''A4'' \<in> set (snd (cancelAllOrders (Inr ?book) ?refuse))"
    by simp
  from d 1 2 3 show ?thesis
    by (simp add: Let_def)
qed

end
